theory Spec2Isabelle
  imports Main "HOL-Library.Word"
begin

unbundle bit_operations_syntax

section \<open>The vbswap virtual block device (drivers/block/vbswap/vbswap.c)\<close>

text \<open>
  A shallow embedding of the request path of the driver: the bounds and alignment check
  \<open>vbswap_valid_io_request\<close>, the page operations \<open>vbswap_bvec_read\<close> and
  \<open>vbswap_bvec_write\<close>, the dispatcher \<open>__vbswap_make_request\<close>, the entry point
  \<open>vbswap_make_request\<close> and the four sysfs attribute callbacks. The driver's globals
  (\<open>swap_header_page\<close>) and the kernel log it writes with \<open>pr_err\<close> are one explicit
  state record that every function takes and returns.
\<close>

subsection \<open>Constants\<close>

type_synonym u8 = "8 word"
type_synonym u16 = "16 word"
type_synonym u32 = "32 word"
type_synonym u64 = "64 word"

definition SECTOR_SHIFT :: nat where
  "SECTOR_SHIFT = 9"

definition SECTOR_SIZE :: nat where
  "SECTOR_SIZE = 2 ^ SECTOR_SHIFT"

text \<open>
  Modelled from the spec: \<open>PAGE_SHIFT\<close> and \<open>PAGE_SIZE\<close> come from the architecture
  headers, which are not under src/. Section 6 of the specification fixes one memory page at
  4096 bytes in the reference configuration, so the shift is 12.
\<close>

definition PAGE_SHIFT :: nat where
  "PAGE_SHIFT = 12"

definition PAGE_SIZE :: nat where
  "PAGE_SIZE = 2 ^ PAGE_SHIFT"

definition SECTORS_PER_PAGE_SHIFT :: nat where
  "SECTORS_PER_PAGE_SHIFT = PAGE_SHIFT - SECTOR_SHIFT"

definition SECTORS_PER_PAGE :: nat where
  "SECTORS_PER_PAGE = 2 ^ SECTORS_PER_PAGE_SHIFT"

definition VBSWAP_LOGICAL_BLOCK_SHIFT :: nat where
  "VBSWAP_LOGICAL_BLOCK_SHIFT = 12"

definition VBSWAP_LOGICAL_BLOCK_SIZE :: nat where
  "VBSWAP_LOGICAL_BLOCK_SIZE = 2 ^ VBSWAP_LOGICAL_BLOCK_SHIFT"

definition VBSWAP_SECTOR_PER_LOGICAL_BLOCK :: nat where
  "VBSWAP_SECTOR_PER_LOGICAL_BLOCK = 2 ^ (VBSWAP_LOGICAL_BLOCK_SHIFT - SECTOR_SHIFT)"

definition SZ_1G :: u64 where
  "SZ_1G = 0x40000000"

text \<open>\<open>PAGE_ALIGN\<close> rounds a 64-bit byte count up to the next page boundary.\<close>

definition PAGE_ALIGN :: "u64 \<Rightarrow> u64" where
  "PAGE_ALIGN x = (x + (of_nat PAGE_SIZE - 1)) AND NOT (of_nat PAGE_SIZE - 1)"

definition vbswap_disksize :: u64 where
  "vbswap_disksize = PAGE_ALIGN (SZ_1G * 6)"

text \<open>The two errno values the driver names, as the positive numbers of errno-base.h.\<close>

definition EIO :: int where
  "EIO = 5"

definition ENOSPC :: int where
  "ENOSPC = 28"

text \<open>
  Modelled from the spec: \<open>PF_KTHREAD\<close> is declared in the scheduler's header, not under
  src/. It is the flag of \<open>current->flags\<close> that marks the host's internal (kernel thread)
  context, the one the origin gate of section 4.1 rejects; the driver only tests whether the
  bit is set.
\<close>

definition PF_KTHREAD :: u32 where
  "PF_KTHREAD = 0x00200000"

subsection \<open>Data\<close>

text \<open>A page is its bytes; a real page holds exactly \<open>PAGE_SIZE\<close> of them.\<close>

type_synonym page = "u8 list"

definition page_ok :: "page \<Rightarrow> bool" where
  "page_ok p = (length p = PAGE_SIZE)"

text \<open>
  \<open>struct bio_vec\<close>: \<open>bv_page\<close> stands for the contents of the page the pointer refers
  to, so that a read, which fills that page, returns the segment with new contents.
\<close>

record bio_vec =
  bv_page :: page
  bv_len :: u32
  bv_offset :: u32

datatype blk_status = BLK_STS_OK | BLK_STS_IOERR

datatype data_dir = READ | WRITE

text \<open>
  \<open>struct bio\<close>, with the fields of \<open>bi_iter\<close> written flat. \<open>bi_vcnt\<close> is the bio's
  own segment counter, the field the dispatcher tests.
\<close>

text \<open>
  Modelled from the spec: \<open>bio_data_dir\<close> and \<open>bio_for_each_segment\<close> are macros of the
  block layer's headers, which are not under src/. Following the Request of section 3
  (direction, start sector, total byte length, ordered sequence of segments, each with its
  own byte offset and length), \<open>bi_data_dir\<close> is the direction \<open>bio_data_dir\<close> yields and
  \<open>bi_segments\<close> is the sequence of segments \<open>bio_for_each_segment\<close> yields, in request
  order.
\<close>

record bio =
  bi_sector :: u64
  bi_size :: u32
  bi_vcnt :: u16
  bi_data_dir :: data_dir
  bi_segments :: "bio_vec list"
  bi_status :: blk_status

text \<open>
  Modelled from the spec: what \<open>bio_for_each_segment\<close>, which is not under src/,
  guarantees of the segments of a request (section 3: a total byte length and segments with
  their own lengths, each backed by a memory page). The iterator hands out non-empty
  segments until the request's \<open>bi_size\<close> bytes are used up.
\<close>

definition bio_ok :: "bio \<Rightarrow> bool" where
  "bio_ok b =
     (list_all (\<lambda>bv. bv_len bv \<noteq> 0 \<and> page_ok (bv_page bv)) (bi_segments b) \<and>
      sum_list (map (\<lambda>bv. unat (bv_len bv)) (bi_segments b)) = unat (bi_size b))"

text \<open>The messages the driver logs with \<open>pr_err\<close> (\<open>pr_debug\<close> is compiled out).\<close>

datatype log_msg =
    Read_outside_header
  | Write_outside_header
  | Invalid_io_request u64 u32 u64
  | Invalid_offset u64 u32 u32
  | Bvec_misaligned u32 u32
  | Bvec_rw_failed int

text \<open>
  The driver's mutable globals: \<open>swap_header_page\<close> is \<open>None\<close> for the NULL pointer
  (header state Empty) and \<open>Some p\<close> for a retained page with contents \<open>p\<close> (Holding).
\<close>

record vbswap =
  swap_header_page :: "page option"
  klog :: "log_msg list"

definition vbswap_init :: vbswap where
  "vbswap_init = \<lparr>swap_header_page = None, klog = []\<rparr>"

definition vbswap_inv :: "vbswap \<Rightarrow> bool" where
  "vbswap_inv st = (case swap_header_page st of None \<Rightarrow> True | Some p \<Rightarrow> page_ok p)"

text \<open>
  What \<open>alloc_page\<close> answers when the driver calls it: \<open>None\<close> for NULL (the allocation
  failed) or a fresh page with arbitrary contents.
\<close>

definition alloc_ok :: "page option \<Rightarrow> bool" where
  "alloc_ok a = (case a of None \<Rightarrow> True | Some p \<Rightarrow> page_ok p)"

text \<open>The driver never tests the pointer it maps, so mapping NULL is a fault of its own.\<close>

datatype fault = NULL_PAGE_DEREF

subsection \<open>Helpers of the kernel\<close>

definition pr_err :: "log_msg \<Rightarrow> vbswap \<Rightarrow> vbswap" where
  "pr_err m st = st\<lparr>klog := klog st @ [m]\<rparr>"

text \<open>\<open>memcpy (dst + off, src, n)\<close> and \<open>memset (dst + off, c, n)\<close> on page contents.\<close>

definition memcpy_at :: "page \<Rightarrow> nat \<Rightarrow> page \<Rightarrow> nat \<Rightarrow> page" where
  "memcpy_at dst off src n = take off dst @ take n src @ drop (off + n) dst"

definition memset_at :: "page \<Rightarrow> nat \<Rightarrow> u8 \<Rightarrow> nat \<Rightarrow> page" where
  "memset_at dst off c n = take off dst @ replicate n c @ drop (off + n) dst"

text \<open>\<open>bio_io_error\<close> completes the bio with the I/O error status.\<close>

definition bio_io_error :: "bio \<Rightarrow> bio" where
  "bio_io_error b = b\<lparr>bi_status := BLK_STS_IOERR\<rparr>"

subsection \<open>Validation\<close>

definition vbswap_valid_io_request :: "bio \<Rightarrow> int" where
  "vbswap_valid_io_request b =
     (if bi_sector b \<ge> drop_bit SECTOR_SHIFT vbswap_disksize \<or>
         bi_sector b AND (of_nat VBSWAP_SECTOR_PER_LOGICAL_BLOCK - 1) \<noteq> 0 \<or>
         bi_size b AND (of_nat VBSWAP_LOGICAL_BLOCK_SIZE - 1) \<noteq> 0
      then 0 else 1)"

subsection \<open>Page operations\<close>

definition vbswap_bvec_read :: "bio_vec \<Rightarrow> u32 \<Rightarrow> vbswap \<Rightarrow> int \<times> bio_vec \<times> vbswap" where
  "vbswap_bvec_read bvec index st =
     (let st1 = (if index \<noteq> 0 then pr_err Read_outside_header st else st) in
      case (if index = 0 then swap_header_page st1 else None) of
        Some hdr \<Rightarrow>
          (0,
           bvec\<lparr>bv_page :=
             memcpy_at (bv_page bvec) (unat (bv_offset bvec)) hdr (unat (bv_len bvec))\<rparr>,
           st1\<lparr>swap_header_page := None\<rparr>)
      | None \<Rightarrow>
          (0,
           bvec\<lparr>bv_page :=
             memset_at (bv_page bvec) (unat (bv_offset bvec)) 0 (unat (bv_len bvec))\<rparr>,
           st1))"

definition vbswap_bvec_write ::
  "page option \<Rightarrow> bio_vec \<Rightarrow> u32 \<Rightarrow> vbswap \<Rightarrow> fault + (int \<times> bio_vec \<times> vbswap)" where
  "vbswap_bvec_write alloc_page bvec index st =
     (if index \<noteq> 0 then Inr (- EIO, bvec, pr_err Write_outside_header st)
      else
        case (case swap_header_page st of None \<Rightarrow> alloc_page | Some p \<Rightarrow> Some p) of
          None \<Rightarrow> Inl NULL_PAGE_DEREF
        | Some hdr \<Rightarrow>
            Inr (0, bvec,
                 st\<lparr>swap_header_page := Some (memcpy_at hdr 0 (bv_page bvec) PAGE_SIZE)\<rparr>))"

definition vbswap_bvec_rw ::
  "page option \<Rightarrow> bio_vec \<Rightarrow> u32 \<Rightarrow> data_dir \<Rightarrow> vbswap \<Rightarrow>
   fault + (int \<times> bio_vec \<times> vbswap)" where
  "vbswap_bvec_rw alloc_page bvec index rw st =
     (if rw = READ then Inr (vbswap_bvec_read bvec index st)
      else vbswap_bvec_write alloc_page bvec index st)"

subsection \<open>The dispatcher\<close>

text \<open>
  The body of the \<open>bio_for_each_segment\<close> loop of \<open>__vbswap_make_request\<close>, one segment
  per call. The flag of the result is \<open>True\<close> when the loop ran to its end and \<open>False\<close>
  when it left through \<open>goto out_error\<close>.
\<close>

fun vbswap_segments ::
  "page option \<Rightarrow> data_dir \<Rightarrow> bio_vec list \<Rightarrow> u32 \<Rightarrow> vbswap \<Rightarrow>
   fault + (bool \<times> bio_vec list \<times> vbswap)" where
  "vbswap_segments alloc_page rw [] index st = Inr (True, [], st)"
| "vbswap_segments alloc_page rw (bvec # rest) index st =
     (if unat (bv_len bvec) \<noteq> PAGE_SIZE \<or> bv_offset bvec \<noteq> 0 then
        Inr (False, bvec # rest,
             pr_err (Bvec_misaligned (bv_len bvec) (bv_offset bvec)) st)
      else
        case vbswap_bvec_rw alloc_page bvec index rw st of
          Inl f \<Rightarrow> Inl f
        | Inr (ret, bvec', st') \<Rightarrow>
            if ret < 0 then
              Inr (False, bvec' # rest,
                   if ret \<noteq> - ENOSPC then pr_err (Bvec_rw_failed ret) st' else st')
            else
              (case vbswap_segments alloc_page rw rest (index + 1) st' of
                 Inl f \<Rightarrow> Inl f
               | Inr (done, rest', st'') \<Rightarrow> Inr (done, bvec' # rest', st'')))"

text \<open>The page index and the intra-page byte offset the dispatcher derives from the sector.\<close>

definition bio_index :: "bio \<Rightarrow> u32" where
  "bio_index b = ucast (drop_bit SECTORS_PER_PAGE_SHIFT (bi_sector b))"

definition bio_offset :: "bio \<Rightarrow> u32" where
  "bio_offset b =
     ucast (push_bit SECTOR_SHIFT (bi_sector b AND (of_nat SECTORS_PER_PAGE - 1)))"

text \<open>\<open>__vbswap_make_request\<close> (an Isabelle name cannot start with an underscore).\<close>

definition vbswap_make_request_noinline ::
  "page option \<Rightarrow> bio \<Rightarrow> data_dir \<Rightarrow> vbswap \<Rightarrow> fault + (bio \<times> vbswap)" where
  "vbswap_make_request_noinline alloc_page b rw st =
     (if vbswap_valid_io_request b = 0 then
        Inr (bio_io_error b,
             pr_err (Invalid_io_request (bi_sector b) (bi_size b) vbswap_disksize) st)
      else if bio_offset b \<noteq> 0 then
        Inr (bio_io_error b,
             pr_err (Invalid_offset (bi_sector b) (bio_index b) (bio_offset b)) st)
      else if unat (bi_size b) > PAGE_SIZE then Inr (bio_io_error b, st)
      else if bi_vcnt b > 1 then Inr (bio_io_error b, st)
      else
        case vbswap_segments alloc_page rw (bi_segments b) (bio_index b) st of
          Inl f \<Rightarrow> Inl f
        | Inr (done, segs, st') \<Rightarrow>
            if done then Inr (b\<lparr>bi_segments := segs, bi_status := BLK_STS_OK\<rparr>, st')
            else Inr (bio_io_error (b\<lparr>bi_segments := segs\<rparr>), st'))"

text \<open>
  \<open>vbswap_make_request\<close>, the handler of every request. \<open>current_flags\<close> is
  \<open>current->flags\<close>, the flags of the calling task.
\<close>

definition vbswap_make_request ::
  "u32 \<Rightarrow> page option \<Rightarrow> bio \<Rightarrow> vbswap \<Rightarrow> fault + (bio \<times> vbswap)" where
  "vbswap_make_request current_flags alloc_page b st =
     (if current_flags AND PF_KTHREAD \<noteq> 0 then Inr (bio_io_error b, st)
      else vbswap_make_request_noinline alloc_page b (bi_data_dir b) st)"

subsection \<open>Sequences of requests\<close>

text \<open>
  A request as the device sees it: the flags of the calling task, the answer \<open>alloc_page\<close>
  would give while the request is served, and the bio. Requests are served one after the
  other; a fault ends the run.
\<close>

type_synonym request = "u32 \<times> page option \<times> bio"

definition request_ok :: "request \<Rightarrow> bool" where
  "request_ok r = (case r of (current_flags, alloc_page, b) \<Rightarrow> alloc_ok alloc_page \<and> bio_ok b)"

fun vbswap_run :: "vbswap \<Rightarrow> request list \<Rightarrow> fault + vbswap" where
  "vbswap_run st [] = Inr st"
| "vbswap_run st ((current_flags, alloc_page, b) # rs) =
     (case vbswap_make_request current_flags alloc_page b st of
        Inl f \<Rightarrow> Inl f
      | Inr (b', st') \<Rightarrow> vbswap_run st' rs)"

text \<open>
  A request that passes every check of the dispatcher and carries exactly one segment,
  \<open>bv\<close>: one full page at offset zero.
\<close>

definition valid_page_io :: "bio \<Rightarrow> bio_vec \<Rightarrow> bool" where
  "valid_page_io b bv =
     (vbswap_valid_io_request b \<noteq> 0 \<and> unat (bi_size b) \<le> PAGE_SIZE \<and> bi_vcnt b \<le> 1 \<and>
      bi_segments b = [bv] \<and> unat (bv_len bv) = PAGE_SIZE \<and> bv_offset bv = 0 \<and>
      page_ok (bv_page bv))"

subsection \<open>Administrative attributes\<close>

text \<open>
  The \<open>%llu\<close> and \<open>%d\<close> conversions of \<open>scnprintf\<close>, which writes at most \<open>sz - 1\<close>
  characters and returns how many it wrote.
\<close>

definition digit_char :: "nat \<Rightarrow> char" where
  "digit_char d = ''0123456789'' ! d"

fun dec_string :: "nat \<Rightarrow> string" where
  "dec_string n =
     (if n < 10 then [digit_char n] else dec_string (n div 10) @ [digit_char (n mod 10)])"

declare dec_string.simps [simp del]

definition fmt_llu :: "u64 \<Rightarrow> string" where
  "fmt_llu x = dec_string (unat x)"

definition fmt_d :: "u32 \<Rightarrow> string" where
  "fmt_d x =
     (if sint x < 0 then CHR ''-'' # dec_string (nat (- sint x)) else dec_string (nat (sint x)))"

definition scnprintf :: "nat \<Rightarrow> string \<Rightarrow> string \<times> int" where
  "scnprintf sz s = (take (sz - 1) s, int (length (take (sz - 1) s)))"

definition disksize_show :: "string \<times> int" where
  "disksize_show = scnprintf PAGE_SIZE (fmt_llu vbswap_disksize @ [CHR 0x0A])"

definition disksize_store :: "vbswap \<Rightarrow> string \<Rightarrow> u64 \<Rightarrow> u64 \<times> vbswap" where
  "disksize_store st buf len = (len, st)"

text \<open>\<open>num_online_cpus\<close> is what the host answers to \<open>num_online_cpus ()\<close>.\<close>

definition max_comp_streams_show :: "u32 \<Rightarrow> string \<times> int" where
  "max_comp_streams_show num_online_cpus =
     scnprintf PAGE_SIZE (fmt_d num_online_cpus @ [CHR 0x0A])"

definition max_comp_streams_store :: "vbswap \<Rightarrow> string \<Rightarrow> u64 \<Rightarrow> u64 \<times> vbswap" where
  "max_comp_streams_store st buf len = (len, st)"

text \<open>The number a string of decimal digits denotes, to read an attribute's text back.\<close>

definition digit_val :: "char \<Rightarrow> nat" where
  "digit_val c = of_char c - 48"

definition dec_value :: "string \<Rightarrow> nat" where
  "dec_value s = foldl (\<lambda>acc c. 10 * acc + digit_val c) 0 s"

subsection \<open>Concrete requests\<close>

text \<open>One full-page segment over a page with contents \<open>p\<close>, and a one-page request over it.\<close>

definition page_segment :: "page \<Rightarrow> bio_vec" where
  "page_segment p = \<lparr>bv_page = p, bv_len = 4096, bv_offset = 0\<rparr>"

definition page_request :: "data_dir \<Rightarrow> u64 \<Rightarrow> page \<Rightarrow> bio" where
  "page_request rw sector p =
     \<lparr>bi_sector = sector, bi_size = 4096, bi_vcnt = 1, bi_data_dir = rw,
      bi_segments = [page_segment p], bi_status = BLK_STS_OK\<rparr>"

text \<open>A request that carries no bytes and no segment.\<close>

definition empty_request :: "data_dir \<Rightarrow> u64 \<Rightarrow> bio" where
  "empty_request rw sector =
     \<lparr>bi_sector = sector, bi_size = 0, bi_vcnt = 0, bi_data_dir = rw,
      bi_segments = [], bi_status = BLK_STS_OK\<rparr>"

text \<open>The payload of scenario A, a page of \<open>0xAA\<close> bytes, and an all-zero page.\<close>

definition page_AA :: page where
  "page_AA = replicate 4096 0xAA"

definition page_00 :: page where
  "page_00 = replicate 4096 0"

text \<open>Scenario C: a write of 8192 bytes in two segments at sector 0.\<close>

definition two_page_write :: bio where
  "two_page_write =
     \<lparr>bi_sector = 0, bi_size = 8192, bi_vcnt = 2, bi_data_dir = WRITE,
      bi_segments = [page_segment page_AA, page_segment page_AA], bi_status = BLK_STS_OK\<rparr>"

section \<open>Basic facts\<close>

lemmas vb_consts =
  SECTOR_SHIFT_def SECTOR_SIZE_def PAGE_SHIFT_def PAGE_SIZE_def SECTORS_PER_PAGE_SHIFT_def
  SECTORS_PER_PAGE_def VBSWAP_LOGICAL_BLOCK_SHIFT_def VBSWAP_LOGICAL_BLOCK_SIZE_def
  VBSWAP_SECTOR_PER_LOGICAL_BLOCK_def

lemmas req_defs =
  vbswap_make_request_def vbswap_make_request_noinline_def vbswap_bvec_rw_def
  vbswap_bvec_read_def vbswap_bvec_write_def bio_io_error_def pr_err_def Let_def

lemma disksize_val: "vbswap_disksize = 6442450944"
  by (simp add: vbswap_disksize_def PAGE_ALIGN_def SZ_1G_def vb_consts)

lemma cap_sectors: "drop_bit SECTOR_SHIFT vbswap_disksize = 12582912"
  by (simp add: disksize_val SECTOR_SHIFT_def drop_bit_eq_div)

lemma low3_dvd: "(w :: u64) AND 7 = 0 \<longleftrightarrow> 8 dvd unat w"
  using and_mask_dvd_nat [of 3 w] by (simp add: mask_eq_exp_minus_1)

lemma low12_dvd: "(w :: u32) AND 4095 = 0 \<longleftrightarrow> 4096 dvd unat w"
  using and_mask_dvd_nat [of 12 w] by (simp add: mask_eq_exp_minus_1)

lemma sector_mask:
  "(of_nat VBSWAP_SECTOR_PER_LOGICAL_BLOCK - 1 :: u64) = 7"
  "(of_nat SECTORS_PER_PAGE - 1 :: u64) = 7"
  "(of_nat VBSWAP_LOGICAL_BLOCK_SIZE - 1 :: u32) = 4095"
  by (simp_all add: vb_consts)

lemma valid_iff:
  "vbswap_valid_io_request b = 0 \<longleftrightarrow>
     12582912 \<le> unat (bi_sector b) \<or> \<not> 8 dvd unat (bi_sector b) \<or>
     \<not> 4096 dvd unat (bi_size b)"
  by (simp add: vbswap_valid_io_request_def cap_sectors sector_mask low3_dvd low12_dvd
      word_le_nat_alt)

lemma valid_offset: "vbswap_valid_io_request b \<noteq> 0 \<Longrightarrow> bio_offset b = 0"
proof -
  assume "vbswap_valid_io_request b \<noteq> 0"
  then have "bi_sector b AND 7 = 0"
    by (simp add: vbswap_valid_io_request_def sector_mask split: if_splits)
  then show ?thesis
    by (simp only: bio_offset_def sector_mask) simp
qed

lemma index_div:
  "unat (bi_sector b) < 12582912 \<Longrightarrow> unat (bio_index b) = unat (bi_sector b) div 8"
proof -
  assume lt: "unat (bi_sector b) < 12582912"
  have "unat (bio_index b) = drop_bit 3 (unat (bi_sector b)) mod 2 ^ 32"
    by (simp only: bio_index_def SECTORS_PER_PAGE_SHIFT_def PAGE_SHIFT_def SECTOR_SHIFT_def
        unsigned_ucast_eq unat_drop_bit_eq take_bit_eq_mod) simp
  also have "\<dots> = unat (bi_sector b) div 8 mod 2 ^ 32"
    by (simp add: drop_bit_eq_div)
  also have "\<dots> = unat (bi_sector b) div 8"
    using lt by simp
  finally show ?thesis .
qed

lemma memcpy_full: "length src = n \<Longrightarrow> length dst \<le> n \<Longrightarrow> memcpy_at dst 0 src n = src"
  by (simp add: memcpy_at_def)

lemma memset_full: "length dst \<le> n \<Longrightarrow> memset_at dst 0 c n = replicate n c"
  by (simp add: memset_at_def)

lemma page_request_valid:
  "page_ok p \<Longrightarrow> valid_page_io (page_request rw 0 p) (page_segment p)"
  by (simp add: valid_page_io_def page_request_def page_segment_def valid_iff vb_consts)

lemma index0: "bio_index (page_request rw 0 p) = 0" "bio_index (empty_request rw 0) = 0"
  by (simp_all add: bio_index_def page_request_def empty_request_def)

lemma page_request_sel:
  "bi_data_dir (page_request rw s p) = rw" "bv_page (page_segment p) = p"
  "bi_data_dir (empty_request rw s) = rw"
  by (simp_all add: page_request_def page_segment_def empty_request_def)

lemma page_request_valid_at:
  "page_ok p \<Longrightarrow> unat s < 12582912 \<Longrightarrow> 8 dvd unat s \<Longrightarrow>
   valid_page_io (page_request rw s p) (page_segment p)"
  by (simp add: valid_page_io_def page_request_def page_segment_def valid_iff vb_consts)

lemma page_request_index:
  "bio_index (page_request rw 40 p) = 5" "bio_index (page_request rw 8 p) = 1"
  "bio_index (empty_request rw 8) = 1"
  by (simp_all add: bio_index_def page_request_def empty_request_def vb_consts drop_bit_eq_div)

lemma page_request_segs:
  "bi_segments (page_request rw s p) = [page_segment p]" "bi_segments (empty_request rw s) = []"
  by (simp_all add: page_request_def empty_request_def)

lemma pages_ok:
  "page_ok page_AA" "page_ok page_00" "alloc_ok (Some page_00)" "alloc_ok None"
  "vbswap_inv vbswap_init"
  by (simp_all add: page_ok_def page_AA_def page_00_def PAGE_SIZE_def PAGE_SHIFT_def
      alloc_ok_def vbswap_inv_def vbswap_init_def)

subsection \<open>What one valid one-page request does\<close>

lemma read_zero_fill:
  assumes "valid_page_io b bv" "bi_data_dir b = READ" "flags AND PF_KTHREAD = 0"
    "bio_index b \<noteq> 0 \<or> swap_header_page st = None"
  shows "vbswap_make_request flags a b st =
     Inr (b\<lparr>bi_segments := [bv\<lparr>bv_page := replicate PAGE_SIZE 0\<rparr>], bi_status := BLK_STS_OK\<rparr>,
          if bio_index b \<noteq> 0 then pr_err Read_outside_header st else st)"
  using assms valid_offset [of b]
  by (auto simp: req_defs valid_page_io_def memset_full page_ok_def not_less)

lemma read_holding:
  assumes "valid_page_io b bv" "bi_data_dir b = READ" "flags AND PF_KTHREAD = 0"
    "bio_index b = 0" "swap_header_page st = Some h" "page_ok h"
  shows "vbswap_make_request flags a b st =
     Inr (b\<lparr>bi_segments := [bv\<lparr>bv_page := h\<rparr>], bi_status := BLK_STS_OK\<rparr>,
          st\<lparr>swap_header_page := None\<rparr>)"
  using assms valid_offset [of b]
  by (auto simp: req_defs valid_page_io_def memcpy_full page_ok_def not_less)

lemma write_header:
  assumes "valid_page_io b bv" "bi_data_dir b = WRITE" "flags AND PF_KTHREAD = 0"
    "bio_index b = 0" "(case swap_header_page st of None \<Rightarrow> a | Some p \<Rightarrow> Some p) = Some h"
    "length h \<le> PAGE_SIZE"
  shows "vbswap_make_request flags a b st =
     Inr (b\<lparr>bi_status := BLK_STS_OK\<rparr>, st\<lparr>swap_header_page := Some (bv_page bv)\<rparr>)"
  using assms valid_offset [of b]
  by (auto simp: req_defs valid_page_io_def memcpy_full page_ok_def not_less
      split: option.splits)

lemma write_outside_header:
  assumes "bi_data_dir b = WRITE" "bio_index b \<noteq> 0"
  shows "\<exists>b' st'. vbswap_make_request flags a b st = Inr (b', st') \<and>
     swap_header_page st' = swap_header_page st \<and> bi_segments b' = bi_segments b \<and>
     (bi_segments b \<noteq> [] \<longrightarrow> bi_status b' = BLK_STS_IOERR)"
  using assms
  by (cases "bi_segments b") (auto simp: req_defs EIO_def ENOSPC_def)

lemma write_alloc_failure:
  assumes "valid_page_io b bv" "bi_data_dir b = WRITE" "flags AND PF_KTHREAD = 0"
    "bio_index b = 0" "swap_header_page st = None"
  shows "vbswap_make_request flags None b st = Inl NULL_PAGE_DEREF"
  using assms valid_offset[of b]
  by (auto simp: req_defs valid_page_io_def not_less)

lemma bvec_read_result:
  "\<exists>bv' st1. vbswap_bvec_read bv idx st = (0, bv', st1) \<and>
     set (klog st1) \<subseteq> insert Read_outside_header (set (klog st))"
  by (cases "idx = 0"; cases "swap_header_page st")
     (auto simp: vbswap_bvec_read_def Let_def pr_err_def)

lemma segments_read:
  "\<exists>fin segs' st'. vbswap_segments a READ segs idx st = Inr (fin, segs', st') \<and>
     (list_all (\<lambda>bv. unat (bv_len bv) = PAGE_SIZE \<and> bv_offset bv = 0) segs \<longrightarrow> fin) \<and>
     (\<forall>r. Bvec_rw_failed r \<in> set (klog st') \<longrightarrow> Bvec_rw_failed r \<in> set (klog st))"
proof (induction segs arbitrary: idx st)
  case Nil
  then show ?case by auto
next
  case (Cons bv segs)
  show ?case
  proof (cases "unat (bv_len bv) \<noteq> PAGE_SIZE \<or> bv_offset bv \<noteq> 0")
    case True
    then show ?thesis by (auto simp: pr_err_def)
  next
    case False
    obtain bv' st1 where r: "vbswap_bvec_read bv idx st = (0, bv', st1)"
      and l: "set (klog st1) \<subseteq> insert Read_outside_header (set (klog st))"
      using bvec_read_result [of bv idx st] by blast
    from Cons.IH [of "idx + 1" st1] obtain fin segs' st'
      where ih: "vbswap_segments a READ segs (idx + 1) st1 = Inr (fin, segs', st')"
        "list_all (\<lambda>bv. unat (bv_len bv) = PAGE_SIZE \<and> bv_offset bv = 0) segs \<longrightarrow> fin"
        "\<forall>r. Bvec_rw_failed r \<in> set (klog st') \<longrightarrow> Bvec_rw_failed r \<in> set (klog st1)"
      by blast
    show ?thesis
      using False r l ih by (auto simp: vbswap_bvec_rw_def)
  qed
qed

subsection \<open>Requests of a well-formed bio, and runs of them\<close>

lemma sum_list_zero_nil:
  "list_all (\<lambda>bv. bv_len bv \<noteq> 0 \<and> page_ok (bv_page bv)) segs \<Longrightarrow>
   sum_list (map (\<lambda>bv. unat (bv_len bv)) segs) = 0 \<Longrightarrow> segs = []"
  by (cases segs) (auto simp: unat_eq_zero)

lemma aligned_single:
  assumes "bio_ok b" "unat (bi_size b) \<le> PAGE_SIZE" "bi_segments b = bv # rest"
    "unat (bv_len bv) = PAGE_SIZE"
  shows "rest = []" and "page_ok (bv_page bv)"
proof -
  have all: "list_all (\<lambda>bv. bv_len bv \<noteq> 0 \<and> page_ok (bv_page bv)) (bv # rest)"
    and sum: "unat (bv_len bv) + sum_list (map (\<lambda>bv. unat (bv_len bv)) rest) = unat (bi_size b)"
    using assms(1,3) by (simp_all add: bio_ok_def)
  from sum assms(2,4) have "sum_list (map (\<lambda>bv. unat (bv_len bv)) rest) = 0"
    by linarith
  with all show "rest = []"
    using sum_list_zero_nil [of rest] by simp
  from all show "page_ok (bv_page bv)"
    by simp
qed

lemma step_header:
  assumes ok: "bio_ok b" "alloc_ok a" "vbswap_inv st"
    and res: "vbswap_make_request f a b st = Inr (b', st')"
  shows "swap_header_page st' = swap_header_page st \<or>
     f AND PF_KTHREAD = 0 \<and> bio_index b = 0 \<and> bi_status b' = BLK_STS_OK \<and>
     (\<exists>bv. valid_page_io b bv \<and>
        (bi_data_dir b = WRITE \<and> swap_header_page st' = Some (bv_page bv) \<or>
         bi_data_dir b = READ \<and> swap_header_page st \<noteq> None \<and> swap_header_page st' = None))"
proof (cases "f AND PF_KTHREAD = 0 \<and> vbswap_valid_io_request b \<noteq> 0 \<and>
    unat (bi_size b) \<le> PAGE_SIZE \<and> bi_vcnt b \<le> 1")
  case False
  then show ?thesis
    using res by (auto simp: req_defs not_less split: if_splits)
next
  case pass: True
  show ?thesis
  proof (cases "bi_segments b")
    case Nil
    then show ?thesis
      using res pass valid_offset [of b] by (auto simp: req_defs not_less split: if_splits)
  next
    case (Cons bv rest)
    show ?thesis
    proof (cases "unat (bv_len bv) = PAGE_SIZE \<and> bv_offset bv = 0")
      case False
      then show ?thesis
        using res pass Cons valid_offset [of b]
        by (auto simp: req_defs not_less split: if_splits)
    next
      case True
      then have rest: "rest = []" and pg: "page_ok (bv_page bv)"
        using aligned_single [OF ok(1) _ Cons] pass by simp_all
      have v: "valid_page_io b bv"
        using pass True Cons rest pg by (simp add: valid_page_io_def)
      show ?thesis
      proof (cases "bi_data_dir b")
        case READ
        show ?thesis
        proof (cases "bio_index b \<noteq> 0 \<or> swap_header_page st = None")
          case True
          then show ?thesis
            using res read_zero_fill [OF v READ _ True, of f a] pass
            by (auto simp: pr_err_def split: if_splits)
        next
          case False
          then obtain h where h: "swap_header_page st = Some h" and i: "bio_index b = 0"
            by auto
          have "page_ok h"
            using ok(3) h by (simp add: vbswap_inv_def)
          then show ?thesis
            using res read_holding [OF v READ _ i h, of f a] pass v READ h i by auto
        qed
      next
        case WRITE
        show ?thesis
        proof (cases "bio_index b = 0")
          case False
          then show ?thesis
            using res write_outside_header [OF WRITE False, of f a st] by auto
        next
          case i: True
          show ?thesis
          proof (cases "case swap_header_page st of None \<Rightarrow> a | Some p \<Rightarrow> Some p")
            case None
            then have "swap_header_page st = None" "a = None"
              by (auto split: option.splits)
            then show ?thesis
              using res write_alloc_failure [OF v WRITE _ i, of f st] pass by simp
          next
            case (Some h)
            have "length h \<le> PAGE_SIZE"
              using Some ok(2,3)
              by (auto simp: vbswap_inv_def alloc_ok_def page_ok_def split: option.splits)
            then show ?thesis
              using res write_header [OF v WRITE _ i Some, of f] pass v WRITE i by auto
          qed
        qed
      qed
    qed
  qed
qed

lemma step_inv:
  assumes "bio_ok b" "alloc_ok a" "vbswap_inv st" "vbswap_make_request f a b st = Inr (b', st')"
  shows "vbswap_inv st'"
  using step_header [OF assms] assms(3)
  by (auto simp: vbswap_inv_def valid_page_io_def)

lemma run_inv:
  "list_all request_ok rs \<Longrightarrow> vbswap_inv st \<Longrightarrow> vbswap_run st rs = Inr st' \<Longrightarrow> vbswap_inv st'"
proof (induction rs arbitrary: st)
  case Nil
  then show ?case by simp
next
  case (Cons r rs)
  obtain f a b where r: "r = (f, a, b)"
    by (cases r) auto
  from Cons.prems(3) r obtain b1 st1
    where s: "vbswap_make_request f a b st = Inr (b1, st1)" and rest: "vbswap_run st1 rs = Inr st'"
    by (auto split: sum.splits)
  have "vbswap_inv st1"
    using step_inv [OF _ _ Cons.prems(2) s] Cons.prems(1) r by (simp add: request_ok_def)
  then show ?case
    using Cons.IH [OF _ _ rest] Cons.prems(1) by simp
qed

lemma page_request_bio_ok: "page_ok p \<Longrightarrow> bio_ok (page_request rw s p)"
  by (simp add: bio_ok_def page_request_def page_segment_def)

lemma run_write_header:
  "vbswap_run vbswap_init [(0, Some page_00, page_request WRITE 0 page_AA)] =
     Inr (vbswap_init\<lparr>swap_header_page := Some page_AA\<rparr>)"
  using write_header [where b = "page_request WRITE 0 page_AA" and bv = "page_segment page_AA"
      and flags = 0 and st = vbswap_init and a = "Some page_00" and h = page_00]
  by (simp add: page_request_valid pages_ok page_request_sel index0)
     (simp add: vbswap_init_def page_00_def PAGE_SIZE_def PAGE_SHIFT_def)

lemma shape_fails:
  assumes "PAGE_SIZE < unat (bi_size b) \<or> 1 < bi_vcnt b \<or>
     (case bi_segments b of [] \<Rightarrow> False
      | bv # rest \<Rightarrow> unat (bv_len bv) \<noteq> PAGE_SIZE \<or> bv_offset bv \<noteq> 0)"
  shows "\<exists>st'. vbswap_make_request flags a b st = Inr (b\<lparr>bi_status := BLK_STS_IOERR\<rparr>, st') \<and>
     swap_header_page st' = swap_header_page st"
  using assms
  by (cases "bi_segments b") (auto simp: req_defs)

subsection \<open>Decimal text of the attributes\<close>

lemma digit_val_char: "d < 10 \<Longrightarrow> digit_val (digit_char d) = d"
proof -
  assume "d < 10"
  then have "d \<in> {0, 1, 2, 3, 4, 5, 6, 7, 8, 9}"
    by auto
  then show ?thesis
    by (auto simp: digit_val_def digit_char_def)
qed

lemma dec_value_snoc: "dec_value (s @ [c]) = 10 * dec_value s + digit_val c"
  by (simp add: dec_value_def)

lemma dec_value_string: "dec_value (dec_string n) = n"
proof (induction n rule: dec_string.induct)
  case (1 n)
  show ?case
  proof (cases "n < 10")
    case True
    then show ?thesis
      by (subst dec_string.simps) (simp add: dec_value_def digit_val_char)
  next
    case False
    then have "dec_value (dec_string (n div 10)) = n div 10"
      using "1.IH" by simp
    with False show ?thesis
      by (subst dec_string.simps) (simp add: dec_value_snoc digit_val_char)
  qed
qed

lemma length_dec_string: "0 < k \<Longrightarrow> n < 10 ^ k \<Longrightarrow> length (dec_string n) \<le> k"
proof (induction n arbitrary: k rule: dec_string.induct)
  case (1 n)
  show ?case
  proof (cases "n < 10")
    case True
    then show ?thesis
      using "1.prems" by (subst dec_string.simps) simp
  next
    case False
    obtain j where k: "k = Suc j"
      using "1.prems"(1) by (cases k) auto
    have "0 < j"
      using False "1.prems"(2) k by (cases j) auto
    moreover have "n div 10 < 10 ^ j"
      using "1.prems"(2) k by (simp add: less_mult_imp_div_less mult.commute)
    ultimately have "length (dec_string (n div 10)) \<le> j"
      using "1.IH" [OF False] by simp
    with False k show ?thesis
      by (subst dec_string.simps) simp
  qed
qed

lemma dec_string_disksize: "dec_string 6442450944 = ''6442450944''"
  by (simp add: dec_string.simps [of "numeral m" for m] digit_char_def)

lemma sint_small: "unat (n :: u32) < 2 ^ 31 \<Longrightarrow> sint n = int (unat n)"
proof -
  assume "unat n < 2 ^ 31"
  then have "nat (uint n) < 2147483648"
    by (simp only: unat_eq_nat_uint) simp
  then have "uint n < 2147483648"
    by linarith
  moreover have "- 2147483648 \<le> uint n"
    using uint_ge_0 [of n] by linarith
  ultimately have "signed_take_bit 31 (uint n) = uint n"
    by (intro signed_take_bit_int_eq_self) simp_all
  then show ?thesis
    by (simp only: sint_uint uint_nat [symmetric]) simp
qed

lemma show_cpus:
  assumes "unat (n :: u32) < 2 ^ 31"
  shows "max_comp_streams_show n =
     (dec_string (unat n) @ [CHR 0x0A], int (length (dec_string (unat n))) + 1)"
proof -
  have "unat n < 10 ^ 10"
    using assms by simp
  then have "length (dec_string (unat n)) \<le> 10"
    using length_dec_string [of 10 "unat n"] by simp
  then show ?thesis
    using sint_small [OF assms]
    by (simp add: max_comp_streams_show_def scnprintf_def fmt_d_def PAGE_SIZE_def PAGE_SHIFT_def)
qed

subsection \<open>The page index of a sector, before it is cut to 32 bits\<close>

lemma page_index_truncated:
  assumes "vbswap_valid_io_request b \<noteq> 0" "drop_bit 3 (bi_sector b) \<noteq> 0"
  shows "bio_index b \<noteq> 0"
proof -
  have lt: "unat (bi_sector b) < 12582912"
    using assms(1) valid_iff [of b] by simp
  have nz: "unat (drop_bit 3 (bi_sector b)) \<noteq> 0"
    using assms(2) by (simp only: unat_eq_zero) simp
  have "unat (drop_bit 3 (bi_sector b)) = drop_bit 3 (unat (bi_sector b))"
    by (simp only: unat_drop_bit_eq)
  also have "\<dots> = unat (bi_sector b) div 8"
    by (simp add: drop_bit_eq_div)
  finally have "unat (bi_sector b) div 8 \<noteq> 0"
    using nz by simp
  then have "unat (bio_index b) \<noteq> 0"
    using index_div [OF lt] by simp
  then show ?thesis
    by auto
qed

lemma far_sector:
  "drop_bit 3 (bi_sector (page_request rw 34359738368 p)) \<noteq> 0"
  "bio_index (page_request rw 34359738368 p) = 0"
  "drop_bit 3 (bi_sector (page_request rw 8 p)) \<noteq> 0"
  "drop_bit 3 (bi_sector (empty_request rw 8)) \<noteq> 0"
  by (simp_all add: page_request_def empty_request_def bio_index_def vb_consts drop_bit_eq_div)

section \<open>The claims\<close>

text \<open>
  C1, one-shot header delivery. Start from any header state (Empty or Holding one page).
  A valid write of one full page with bytes B to page index 0 completes with success, given
  that the page allocation it needs when the state is Empty succeeds. The read of page index
  0 that follows at once returns exactly B and leaves the header state Empty, and a second
  read of page index 0 right after it returns one full page of zero bytes.
\<close>

theorem one_shot_header_delivery:
  assumes ctx: "fw AND PF_KTHREAD = 0" "fr1 AND PF_KTHREAD = 0" "fr2 AND PF_KTHREAD = 0"
    and w: "valid_page_io wb wv" "bi_data_dir wb = WRITE" "bio_index wb = 0"
    and r1: "valid_page_io rb1 rv1" "bi_data_dir rb1 = READ" "bio_index rb1 = 0"
    and r2: "valid_page_io rb2 rv2" "bi_data_dir rb2 = READ" "bio_index rb2 = 0"
    and st: "vbswap_inv st"
    and al: "alloc_ok a" "swap_header_page st = None \<longrightarrow> a \<noteq> None"
  shows "\<exists>wb' st1 rb1' st2 rb2' st3.
     vbswap_make_request fw a wb st = Inr (wb', st1) \<and> bi_status wb' = BLK_STS_OK \<and>
     vbswap_make_request fr1 a1 rb1 st1 = Inr (rb1', st2) \<and> bi_status rb1' = BLK_STS_OK \<and>
     map bv_page (bi_segments rb1') = [bv_page wv] \<and> swap_header_page st2 = None \<and>
     vbswap_make_request fr2 a2 rb2 st2 = Inr (rb2', st3) \<and> bi_status rb2' = BLK_STS_OK \<and>
     map bv_page (bi_segments rb2') = [replicate PAGE_SIZE 0]"
proof -
  obtain h where h: "(case swap_header_page st of None \<Rightarrow> a | Some p \<Rightarrow> Some p) = Some h"
    using al(2) by (cases "swap_header_page st") auto
  have hl: "length h \<le> PAGE_SIZE"
    using h st al(1) by (auto simp: vbswap_inv_def alloc_ok_def page_ok_def split: option.splits)
  let ?st1 = "st\<lparr>swap_header_page := Some (bv_page wv)\<rparr>"
  let ?st2 = "?st1\<lparr>swap_header_page := None\<rparr>"
  have pw: "page_ok (bv_page wv)"
    using w(1) by (simp add: valid_page_io_def)
  have s1: "vbswap_make_request fw a wb st = Inr (wb\<lparr>bi_status := BLK_STS_OK\<rparr>, ?st1)"
    using write_header [OF w(1,2) ctx(1) w(3) h hl] .
  have s2: "vbswap_make_request fr1 a1 rb1 ?st1 =
      Inr (rb1\<lparr>bi_segments := [rv1\<lparr>bv_page := bv_page wv\<rparr>], bi_status := BLK_STS_OK\<rparr>, ?st2)"
    using read_holding [OF r1(1,2) ctx(2) r1(3) _ pw, of ?st1 a1] by simp
  have s3: "vbswap_make_request fr2 a2 rb2 ?st2 =
      Inr (rb2\<lparr>bi_segments := [rv2\<lparr>bv_page := replicate PAGE_SIZE 0\<rparr>],
               bi_status := BLK_STS_OK\<rparr>, ?st2)"
    using read_zero_fill [OF r2(1,2) ctx(3), of ?st2 a2] r2(3) by simp
  show ?thesis
    using s1 s2 s3 by simp
qed

text \<open>Scenario A of the specification, from the initial state.\<close>

theorem one_shot_header_delivery_witness:
  "\<exists>wb' st1 rb1' st2 rb2' st3.
     vbswap_make_request 0 (Some page_00) (page_request WRITE 0 page_AA) vbswap_init =
       Inr (wb', st1) \<and>
     bi_status wb' = BLK_STS_OK \<and>
     vbswap_make_request 0 None (page_request READ 0 page_00) st1 = Inr (rb1', st2) \<and>
     bi_status rb1' = BLK_STS_OK \<and>
     map bv_page (bi_segments rb1') = [page_AA] \<and> swap_header_page st2 = None \<and>
     vbswap_make_request 0 None (page_request READ 0 page_AA) st2 = Inr (rb2', st3) \<and>
     bi_status rb2' = BLK_STS_OK \<and>
     map bv_page (bi_segments rb2') = [replicate PAGE_SIZE 0]"
  using one_shot_header_delivery [of 0 0 0 "page_request WRITE 0 page_AA" "page_segment page_AA"
      "page_request READ 0 page_00" "page_segment page_00"
      "page_request READ 0 page_AA" "page_segment page_AA" vbswap_init "Some page_00" None None]
  by (simp add: page_request_valid index0 pages_ok page_request_sel)

text \<open>
  C2, origin rejection. A request whose caller runs in the host's internal context
  (\<open>PF_KTHREAD\<close> set in the caller's flags) completes with the I/O error status whatever its
  parameters are: the device state, log included, and the pages of the request are
  untouched, so neither a validation check nor a page operation has run. A request of an
  ordinary caller is handed to the dispatcher, whose first step is validation: an invalid
  request of an ordinary caller is refused with the validator's log entry.
\<close>

theorem origin_rejection:
  "(flags AND PF_KTHREAD \<noteq> 0 \<longrightarrow>
      vbswap_make_request flags a b st = Inr (b\<lparr>bi_status := BLK_STS_IOERR\<rparr>, st)) \<and>
   (flags AND PF_KTHREAD = 0 \<longrightarrow>
      vbswap_make_request flags a b st = vbswap_make_request_noinline a b (bi_data_dir b) st) \<and>
   (flags AND PF_KTHREAD = 0 \<and> vbswap_valid_io_request b = 0 \<longrightarrow>
      vbswap_make_request flags a b st =
        Inr (b\<lparr>bi_status := BLK_STS_IOERR\<rparr>,
             st\<lparr>klog :=
               klog st @ [Invalid_io_request (bi_sector b) (bi_size b) vbswap_disksize]\<rparr>))"
  by (simp add: req_defs)

text \<open>
  A kernel thread is refused with a valid header write and with a misaligned read alike; the
  same misaligned read of an ordinary caller reaches the validator.
\<close>

theorem origin_rejection_witness:
  "vbswap_make_request PF_KTHREAD (Some page_00) (page_request WRITE 0 page_AA) vbswap_init =
     Inr ((page_request WRITE 0 page_AA)\<lparr>bi_status := BLK_STS_IOERR\<rparr>, vbswap_init) \<and>
   vbswap_make_request PF_KTHREAD None (page_request READ 3 page_AA) vbswap_init =
     Inr ((page_request READ 3 page_AA)\<lparr>bi_status := BLK_STS_IOERR\<rparr>, vbswap_init) \<and>
   vbswap_make_request 0 None (page_request READ 3 page_AA) vbswap_init =
     Inr ((page_request READ 3 page_AA)\<lparr>bi_status := BLK_STS_IOERR\<rparr>,
          vbswap_init\<lparr>klog := [Invalid_io_request 3 4096 vbswap_disksize]\<rparr>)"
  using origin_rejection [of PF_KTHREAD "Some page_00" "page_request WRITE 0 page_AA" vbswap_init]
    origin_rejection [of PF_KTHREAD None "page_request READ 3 page_AA" vbswap_init]
    origin_rejection [of 0 None "page_request READ 3 page_AA" vbswap_init,
      THEN conjunct2, THEN conjunct2]
  by (simp add: PF_KTHREAD_def valid_iff page_request_def vbswap_init_def)

text \<open>
  C3, non-header reads synthesize zeros. The page index of a valid request is its start
  sector divided by 8. A valid one-page read of an ordinary caller at a page index other
  than 0, whatever the header state is, and a valid read of page index 0 while the header
  state is Empty, complete with success, return one full page of zero bytes and leave the
  header state as it was.
\<close>

theorem non_header_reads_zero:
  assumes "flags AND PF_KTHREAD = 0" "bi_data_dir b = READ" "valid_page_io b bv"
    "bio_index b \<noteq> 0 \<or> swap_header_page st = None"
  shows "unat (bio_index b) = unat (bi_sector b) div 8 \<and>
    (\<exists>b' st'. vbswap_make_request flags a b st = Inr (b', st') \<and> bi_status b' = BLK_STS_OK \<and>
       map bv_page (bi_segments b') = [replicate PAGE_SIZE 0] \<and>
       swap_header_page st' = swap_header_page st)"
proof -
  have "unat (bi_sector b) < 12582912"
    using assms(3) valid_iff [of b] by (simp add: valid_page_io_def)
  then have "unat (bio_index b) = unat (bi_sector b) div 8"
    by (rule index_div)
  then show ?thesis
    using read_zero_fill [OF assms(3,2,1,4), of a] by (simp add: pr_err_def)
qed

text \<open>Scenario B, read at sector 40 (page index 5), here even with a header retained.\<close>

theorem non_header_reads_zero_witness:
  "unat (bio_index (page_request READ 40 page_AA)) = 40 div 8 \<and>
   (\<exists>b' st'. vbswap_make_request 0 None (page_request READ 40 page_AA)
        (vbswap_init\<lparr>swap_header_page := Some page_AA\<rparr>) = Inr (b', st') \<and>
      bi_status b' = BLK_STS_OK \<and> map bv_page (bi_segments b') = [replicate PAGE_SIZE 0] \<and>
      swap_header_page st' = Some page_AA)"
  using non_header_reads_zero [of 0 "page_request READ 40 page_AA" "page_segment page_AA"
      "vbswap_init\<lparr>swap_header_page := Some page_AA\<rparr>" None]
  by (simp add: page_request_valid_at pages_ok page_request_sel page_request_index)

text \<open>
  C4, write restriction. As stated, for every write request addressed at a page index other
  than 0, the claim fails: a write request that carries no segment passes every check, runs
  no page operation and completes with success. Here it is addressed at sector 8, page
  index 1.
\<close>

theorem write_restriction_counterexample:
  "bi_data_dir (empty_request WRITE 8) = WRITE \<and> bio_index (empty_request WRITE 8) \<noteq> 0 \<and>
   drop_bit 3 (bi_sector (empty_request WRITE 8)) \<noteq> 0 \<and>
   vbswap_make_request 0 None (empty_request WRITE 8) vbswap_init =
     Inr ((empty_request WRITE 8)\<lparr>bi_status := BLK_STS_OK\<rparr>, vbswap_init)"
  by (simp add: page_request_index page_request_sel far_sector)
     (simp add: req_defs empty_request_def valid_iff bio_offset_def sector_mask PAGE_SIZE_def)

text \<open>
  C4 as amended. The page index of a request is its start sector shifted right by 3, taken
  in full, before the dispatcher cuts it to 32 bits. Every write request addressed at a page
  index other than 0 returns with the header state and its retained bytes exactly as before
  and with the pages of the request untouched; and when the request carries at least one
  segment it completes with the I/O error status.
\<close>

theorem write_restriction:
  assumes "bi_data_dir b = WRITE" "drop_bit 3 (bi_sector b) \<noteq> 0"
  shows "\<exists>b' st'. vbswap_make_request flags a b st = Inr (b', st') \<and>
     swap_header_page st' = swap_header_page st \<and> bi_segments b' = bi_segments b \<and>
     (bi_segments b \<noteq> [] \<longrightarrow> bi_status b' = BLK_STS_IOERR)"
proof (cases "vbswap_valid_io_request b = 0")
  case True
  then show ?thesis
    by (simp add: req_defs)
next
  case False
  then have "bio_index b \<noteq> 0"
    using assms(2) by (rule page_index_truncated)
  with assms(1) show ?thesis
    by (rule write_outside_header)
qed

text \<open>
  A write of one page at sector 8, and one at sector 2^35, whose page index 2^32 the
  dispatcher would cut to 0: the validator refuses it first.
\<close>

theorem write_restriction_witness:
  "(\<exists>b' st'. vbswap_make_request 0 (Some page_00) (page_request WRITE 8 page_AA)
       (vbswap_init\<lparr>swap_header_page := Some page_00\<rparr>) = Inr (b', st') \<and>
     swap_header_page st' = Some page_00 \<and> bi_status b' = BLK_STS_IOERR) \<and>
   bio_index (page_request WRITE 34359738368 page_AA) = 0 \<and>
   (\<exists>b' st'. vbswap_make_request 0 (Some page_00) (page_request WRITE 34359738368 page_AA)
       (vbswap_init\<lparr>swap_header_page := Some page_00\<rparr>) = Inr (b', st') \<and>
     swap_header_page st' = Some page_00 \<and> bi_status b' = BLK_STS_IOERR)"
  using write_restriction [of "page_request WRITE 8 page_AA" 0 "Some page_00"
      "vbswap_init\<lparr>swap_header_page := Some page_00\<rparr>"]
    write_restriction [of "page_request WRITE 34359738368 page_AA" 0 "Some page_00"
      "vbswap_init\<lparr>swap_header_page := Some page_00\<rparr>"]
  by (simp add: page_request_sel far_sector page_request_segs) blast

text \<open>
  C5, bounds and alignment validation. The validator rejects a request if and only if its
  start sector is at or beyond the capacity in sectors (the capacity is 6 * 1024^3 bytes,
  that is 12582912 sectors of 512 bytes), or the start sector is not a multiple of 8
  (logical block size 4096 over sector size 512), or the byte length is not a multiple of
  4096. A rejected request completes with the I/O error status, its pages untouched and the
  header state unchanged; a request whose start sector equals the capacity in sectors is
  among them.
\<close>

theorem bounds_alignment_validation:
  "(vbswap_valid_io_request b = 0 \<longleftrightarrow>
      12582912 \<le> unat (bi_sector b) \<or> \<not> 8 dvd unat (bi_sector b) \<or>
      \<not> 4096 dvd unat (bi_size b)) \<and>
   unat vbswap_disksize = 6 * 1024 ^ 3 \<and>
   unat (drop_bit SECTOR_SHIFT vbswap_disksize) = 12582912 \<and>
   VBSWAP_LOGICAL_BLOCK_SIZE div SECTOR_SIZE = 8 \<and>
   (vbswap_valid_io_request b = 0 \<longrightarrow>
      (\<exists>st'. vbswap_make_request flags a b st = Inr (b\<lparr>bi_status := BLK_STS_IOERR\<rparr>, st') \<and>
         swap_header_page st' = swap_header_page st)) \<and>
   (unat (bi_sector b) = 12582912 \<longrightarrow>
      (\<exists>st'. vbswap_make_request flags a b st = Inr (b\<lparr>bi_status := BLK_STS_IOERR\<rparr>, st') \<and>
         swap_header_page st' = swap_header_page st))"
proof -
  have fail: "vbswap_valid_io_request b = 0 \<Longrightarrow>
     \<exists>st'. vbswap_make_request flags a b st = Inr (b\<lparr>bi_status := BLK_STS_IOERR\<rparr>, st') \<and>
         swap_header_page st' = swap_header_page st"
    by (simp add: req_defs)
  have cap: "unat (bi_sector b) = 12582912 \<Longrightarrow> vbswap_valid_io_request b = 0"
    by (simp add: valid_iff)
  show ?thesis
    using fail cap by (simp add: valid_iff disksize_val cap_sectors vb_consts)
qed

text \<open>Scenario D: a read at the capacity in sectors, with a header retained.\<close>

theorem bounds_alignment_validation_witness:
  "vbswap_valid_io_request (page_request READ 12582912 page_00) = 0 \<and>
   (\<exists>st'. vbswap_make_request 0 None (page_request READ 12582912 page_00)
        (vbswap_init\<lparr>swap_header_page := Some page_AA\<rparr>) =
      Inr ((page_request READ 12582912 page_00)\<lparr>bi_status := BLK_STS_IOERR\<rparr>, st') \<and>
      swap_header_page st' = Some page_AA)"
  using bounds_alignment_validation [of "page_request READ 12582912 page_00" 0 None
      "vbswap_init\<lparr>swap_header_page := Some page_AA\<rparr>"]
  by (simp add: page_request_def)

text \<open>
  C6, segment-shape validation. As stated, for every request that does not contain exactly
  one segment, the claim fails: the dispatcher refuses a segment count above one only, and a
  request with no segment and no bytes, here a read at sector 0, completes with success.
\<close>

theorem segment_shape_counterexample:
  "length (bi_segments (empty_request READ 0)) \<noteq> 1 \<and> bi_vcnt (empty_request READ 0) \<noteq> 1 \<and>
   vbswap_make_request 0 None (empty_request READ 0) vbswap_init =
     Inr ((empty_request READ 0)\<lparr>bi_status := BLK_STS_OK\<rparr>, vbswap_init)"
  by (simp add: req_defs empty_request_def valid_iff bio_offset_def sector_mask PAGE_SIZE_def)

text \<open>
  C6 as amended. Every request whose byte length exceeds one page, or that contains more
  than one segment (by its counter \<open>bi_vcnt\<close>, or by the segments a well-formed bio
  hands out), or whose first segment is not exactly one page long at offset zero, completes
  with the I/O error status before any page operation runs: the pages of the request are
  untouched and the header state is unchanged.
\<close>

theorem segment_shape_validation:
  assumes "PAGE_SIZE < unat (bi_size b) \<or> 1 < bi_vcnt b \<or>
     bio_ok b \<and> 1 < length (bi_segments b) \<or>
     (case bi_segments b of [] \<Rightarrow> False
      | bv # rest \<Rightarrow> unat (bv_len bv) \<noteq> PAGE_SIZE \<or> bv_offset bv \<noteq> 0)"
  shows "\<exists>st'. vbswap_make_request flags a b st = Inr (b\<lparr>bi_status := BLK_STS_IOERR\<rparr>, st') \<and>
     swap_header_page st' = swap_header_page st"
proof (cases "bio_ok b \<and> 1 < length (bi_segments b) \<and> unat (bi_size b) \<le> PAGE_SIZE")
  case False
  then show ?thesis
    using assms shape_fails [of b flags a st] by auto
next
  case True
  then obtain bv rest where segs: "bi_segments b = bv # rest" and ne: "rest \<noteq> []"
    by (cases "bi_segments b") auto
  have "unat (bv_len bv) \<noteq> PAGE_SIZE"
    using aligned_single(1) [of b bv rest] True segs ne by auto
  then show ?thesis
    using shape_fails [of b flags a st] segs by simp
qed

theorem segment_shape_validation_witness:
  "\<exists>st'. vbswap_make_request 0 (Some page_00) two_page_write vbswap_init =
      Inr (two_page_write\<lparr>bi_status := BLK_STS_IOERR\<rparr>, st') \<and>
     swap_header_page st' = None"
  using segment_shape_validation [of two_page_write 0 "Some page_00" vbswap_init]
  by (simp add: two_page_write_def PAGE_SIZE_def PAGE_SHIFT_def vbswap_init_def)

text \<open>
  C7, allocation failure. The claim asks that a failed allocation of the retained page be
  detected and the write fail with an I/O error, the header state staying Empty. The code
  maps and copies into the page \<open>alloc_page\<close> returned without testing it: at a valid
  write to page index 0, from the Empty state, with the allocation failing, the request does
  not complete at all.
\<close>

theorem alloc_failure_not_reported:
  "swap_header_page vbswap_init = None \<and>
   valid_page_io (page_request WRITE 0 page_AA) (page_segment page_AA) \<and>
   vbswap_make_request 0 None (page_request WRITE 0 page_AA) vbswap_init = Inl NULL_PAGE_DEREF"
  using write_alloc_failure [OF page_request_valid [OF pages_ok(1)], of WRITE 0 vbswap_init]
  by (simp add: page_request_valid pages_ok page_request_sel index0 vbswap_init_def)

text \<open>
  C9, per-page reads are infallible. \<open>vbswap_bvec_read\<close> returns 0 for every segment,
  page index and header state. So a read request of an ordinary caller that passes the
  validator, the size check, the segment-count check and the shape check of its segments
  completes with success; and no read request, whatever it is, faults or reaches the
  dispatcher's branch for a failed page operation, whose log entry never appears.
\<close>

theorem page_reads_infallible:
  "fst (vbswap_bvec_read bvec index st) = 0 \<and>
   (flags AND PF_KTHREAD = 0 \<and> bi_data_dir b = READ \<and> vbswap_valid_io_request b \<noteq> 0 \<and>
    unat (bi_size b) \<le> PAGE_SIZE \<and> bi_vcnt b \<le> 1 \<and>
    list_all (\<lambda>bv. unat (bv_len bv) = PAGE_SIZE \<and> bv_offset bv = 0) (bi_segments b) \<longrightarrow>
      (\<exists>b' st'. vbswap_make_request flags a b st = Inr (b', st') \<and>
         bi_status b' = BLK_STS_OK)) \<and>
   (bi_data_dir b = READ \<longrightarrow>
      (\<exists>b' st'. vbswap_make_request flags a b st = Inr (b', st') \<and>
         (\<forall>r. Bvec_rw_failed r \<in> set (klog st') \<longrightarrow> Bvec_rw_failed r \<in> set (klog st))))"
proof -
  have ret: "fst (vbswap_bvec_read bvec index st) = 0"
    by (simp add: vbswap_bvec_read_def Let_def split: option.splits)
  obtain fin segs' st1
    where seg: "vbswap_segments a READ (bi_segments b) (bio_index b) st = Inr (fin, segs', st1)"
      "list_all (\<lambda>bv. unat (bv_len bv) = PAGE_SIZE \<and> bv_offset bv = 0) (bi_segments b) \<longrightarrow> fin"
      "\<forall>r. Bvec_rw_failed r \<in> set (klog st1) \<longrightarrow> Bvec_rw_failed r \<in> set (klog st)"
    using segments_read [of a "bi_segments b" "bio_index b" st] by blast
  have ok: "flags AND PF_KTHREAD = 0 \<and> bi_data_dir b = READ \<and> vbswap_valid_io_request b \<noteq> 0 \<and>
    unat (bi_size b) \<le> PAGE_SIZE \<and> bi_vcnt b \<le> 1 \<and>
    list_all (\<lambda>bv. unat (bv_len bv) = PAGE_SIZE \<and> bv_offset bv = 0) (bi_segments b) \<longrightarrow>
      (\<exists>b' st'. vbswap_make_request flags a b st = Inr (b', st') \<and> bi_status b' = BLK_STS_OK)"
    using seg valid_offset [of b]
    by (auto simp: vbswap_make_request_def vbswap_make_request_noinline_def not_less)
  have quiet: "bi_data_dir b = READ \<longrightarrow>
      (\<exists>b' st'. vbswap_make_request flags a b st = Inr (b', st') \<and>
         (\<forall>r. Bvec_rw_failed r \<in> set (klog st') \<longrightarrow> Bvec_rw_failed r \<in> set (klog st)))"
    using seg
    by (auto simp: vbswap_make_request_def vbswap_make_request_noinline_def bio_io_error_def
        pr_err_def)
  show ?thesis
    using ret ok quiet by blast
qed

theorem page_reads_infallible_witness:
  "fst (vbswap_bvec_read (page_segment page_AA) 7 vbswap_init) = 0 \<and>
   (\<exists>b' st'. vbswap_make_request 0 None (page_request READ 40 page_AA) vbswap_init =
       Inr (b', st') \<and> bi_status b' = BLK_STS_OK)"
  using page_reads_infallible [of "page_segment page_AA" 7 vbswap_init 0
      "page_request READ 40 page_AA" None]
  by (simp add: page_request_sel page_request_segs valid_iff)
     (simp add: page_request_def page_segment_def PAGE_SIZE_def PAGE_SHIFT_def)

text \<open>
  C8, header-state transitions. Take any state the device reaches from its initial Empty
  state by a sequence of requests, and any further request that returns. In that state and
  in the next one the device retains at most one page, exactly one page long, which only a
  request at page index 0 can put there. The header state changes only if the request comes
  from an ordinary caller, addresses page index 0, is a valid one-page request and completes
  with success, and then it is either a write, after which the state holds the written page,
  or a read while Holding, after which the state is Empty. Conversely such a write always
  ends in Holding the written page and such a read in Empty. Every other request (rejected
  origin, any request that completes with the I/O error, a read of another page index, a
  read of page 0 while Empty) leaves the header state and its bytes unchanged.
\<close>

theorem header_state_transitions:
  assumes reach: "list_all request_ok rs" "vbswap_run vbswap_init rs = Inr st"
    and req: "request_ok (f, a, b)"
    and res: "vbswap_make_request f a b st = Inr (b', st')"
  shows "vbswap_inv st \<and> vbswap_inv st' \<and>
     (swap_header_page st' \<noteq> swap_header_page st \<longrightarrow>
        f AND PF_KTHREAD = 0 \<and> bio_index b = 0 \<and> bi_status b' = BLK_STS_OK \<and>
        (\<exists>bv. valid_page_io b bv \<and>
           (bi_data_dir b = WRITE \<and> swap_header_page st' = Some (bv_page bv) \<or>
            bi_data_dir b = READ \<and> swap_header_page st \<noteq> None \<and>
            swap_header_page st' = None))) \<and>
     (f AND PF_KTHREAD = 0 \<and> bio_index b = 0 \<and> valid_page_io b wv \<longrightarrow>
        (bi_data_dir b = WRITE \<longrightarrow> swap_header_page st' = Some (bv_page wv)) \<and>
        (bi_data_dir b = READ \<longrightarrow> swap_header_page st' = None)) \<and>
     (f AND PF_KTHREAD \<noteq> 0 \<or> bi_status b' = BLK_STS_IOERR \<or>
      bi_data_dir b = READ \<and> (bio_index b \<noteq> 0 \<or> swap_header_page st = None) \<longrightarrow>
        swap_header_page st' = swap_header_page st)"
proof -
  have inv: "vbswap_inv st"
    using run_inv [OF reach(1) pages_ok(5) reach(2)] .
  have bok: "bio_ok b" and aok: "alloc_ok a"
    using req by (simp_all add: request_ok_def)
  have inv': "vbswap_inv st'"
    using step_inv [OF bok aok inv res] .
  have only: "swap_header_page st' = swap_header_page st \<or>
     f AND PF_KTHREAD = 0 \<and> bio_index b = 0 \<and> bi_status b' = BLK_STS_OK \<and>
     (\<exists>bv. valid_page_io b bv \<and>
        (bi_data_dir b = WRITE \<and> swap_header_page st' = Some (bv_page bv) \<or>
         bi_data_dir b = READ \<and> swap_header_page st \<noteq> None \<and> swap_header_page st' = None))"
    using step_header [OF bok aok inv res] .
  have fwd: "f AND PF_KTHREAD = 0 \<and> bio_index b = 0 \<and> valid_page_io b wv \<longrightarrow>
        (bi_data_dir b = WRITE \<longrightarrow> swap_header_page st' = Some (bv_page wv)) \<and>
        (bi_data_dir b = READ \<longrightarrow> swap_header_page st' = None)"
  proof (intro impI conjI; elim conjE)
    assume c: "f AND PF_KTHREAD = 0" "bio_index b = 0" "valid_page_io b wv"
      and w: "bi_data_dir b = WRITE"
    from only w c(3) show "swap_header_page st' = Some (bv_page wv)"
    proof (elim disjE conjE exE)
      assume same: "swap_header_page st' = swap_header_page st"
      show ?thesis
      proof (cases "case swap_header_page st of None \<Rightarrow> a | Some p \<Rightarrow> Some p")
        case None
        then have "swap_header_page st = None" "a = None"
          by (auto split: option.splits)
        then show ?thesis
          using res write_alloc_failure [OF c(3) w c(1,2), of st] by simp
      next
        case (Some h)
        have "length h \<le> PAGE_SIZE"
          using Some aok inv
          by (auto simp: vbswap_inv_def alloc_ok_def page_ok_def split: option.splits)
        then show ?thesis
          using res write_header [OF c(3) w c(1,2) Some] by auto
      qed
    qed (auto simp: valid_page_io_def)
  next
    assume c: "f AND PF_KTHREAD = 0" "bio_index b = 0" "valid_page_io b wv"
      and r: "bi_data_dir b = READ"
    show "swap_header_page st' = None"
    proof (cases "swap_header_page st")
      case None
      then show ?thesis
        using res read_zero_fill [OF c(3) r c(1), of st a] c(2) by auto
    next
      case (Some h)
      then have "page_ok h"
        using inv by (simp add: vbswap_inv_def)
      then show ?thesis
        using res read_holding [OF c(3) r c(1,2) Some, of a] by auto
    qed
  qed
  show ?thesis
    using inv inv' only fwd by (intro conjI) auto
qed

text \<open>After the header write of scenario A, a read of page 0 takes the device back to Empty.\<close>

theorem header_state_transitions_witness:
  "vbswap_inv (vbswap_init\<lparr>swap_header_page := Some page_AA\<rparr>) \<and>
   vbswap_make_request 0 None (page_request READ 0 page_00)
       (vbswap_init\<lparr>swap_header_page := Some page_AA\<rparr>) =
     Inr ((page_request READ 0 page_00)
            \<lparr>bi_segments := [(page_segment page_00)\<lparr>bv_page := page_AA\<rparr>],
             bi_status := BLK_STS_OK\<rparr>, vbswap_init) \<and>
   swap_header_page vbswap_init = None"
proof -
  let ?st = "vbswap_init\<lparr>swap_header_page := Some page_AA\<rparr>"
  let ?b' = "(page_request READ 0 page_00)
            \<lparr>bi_segments := [(page_segment page_00)\<lparr>bv_page := page_AA\<rparr>],
             bi_status := BLK_STS_OK\<rparr>"
  have reqs: "list_all request_ok [(0, Some page_00, page_request WRITE 0 page_AA)]"
    by (simp add: request_ok_def pages_ok page_request_bio_ok)
  have req: "request_ok (0, None, page_request READ 0 page_00)"
    by (simp add: request_ok_def pages_ok page_request_bio_ok)
  have res: "vbswap_make_request 0 None (page_request READ 0 page_00) ?st = Inr (?b', vbswap_init)"
    using read_holding [where b = "page_request READ 0 page_00" and bv = "page_segment page_00"
        and flags = 0 and st = ?st and h = page_AA and a = None]
    by (simp add: page_request_valid page_request_sel index0 pages_ok)
       (simp add: vbswap_init_def)
  show ?thesis
    using header_state_transitions [OF reqs run_write_header req res, of "page_segment page_00"] res
    by (simp add: page_request_valid pages_ok index0 page_request_sel)
qed

text \<open>
  C10, administrative attributes. The capacity query prints the configured capacity,
  6 * 1024^3 = 6442450944 bytes, and a newline. The parallelism-hint query prints the number
  of online processors the host reports (below 2^31, as \<open>%d\<close> prints it) and a newline,
  and that text reads back as the same number. A store to either attribute returns the full
  input length and the device state it was given, header and log unchanged.
\<close>

theorem attributes_query_only:
  "disksize_show = (''6442450944'' @ [CHR 0x0A], 11) \<and>
   unat vbswap_disksize = 6 * 1024 ^ 3 \<and>
   dec_value ''6442450944'' = unat vbswap_disksize \<and>
   (unat n < 2 ^ 31 \<longrightarrow>
      max_comp_streams_show n =
        (dec_string (unat n) @ [CHR 0x0A], int (length (dec_string (unat n))) + 1) \<and>
      dec_value (dec_string (unat n)) = unat n) \<and>
   disksize_store st buf len = (len, st) \<and>
   max_comp_streams_store st buf len = (len, st)"
proof -
  have "disksize_show = (''6442450944'' @ [CHR 0x0A], 11)"
    by (simp add: disksize_show_def scnprintf_def fmt_llu_def disksize_val dec_string_disksize
        PAGE_SIZE_def PAGE_SHIFT_def)
  moreover have "dec_value ''6442450944'' = unat vbswap_disksize"
    using dec_value_string [of 6442450944] by (simp add: dec_string_disksize disksize_val)
  ultimately show ?thesis
    by (simp add: show_cpus dec_value_string disksize_val disksize_store_def
        max_comp_streams_store_def)
qed

theorem attributes_query_only_witness:
  "max_comp_streams_show 8 = (''8'' @ [CHR 0x0A], 2) \<and> dec_value ''8'' = 8 \<and>
   disksize_store (vbswap_init\<lparr>swap_header_page := Some page_AA\<rparr>) ''1073741824'' 10 =
     (10, vbswap_init\<lparr>swap_header_page := Some page_AA\<rparr>)"
  using attributes_query_only [of 8 "vbswap_init\<lparr>swap_header_page := Some page_AA\<rparr>"
      "''1073741824''" 10]
  by (simp add: dec_string.simps [of "numeral m" for m] digit_char_def)

end
